theory Spec2Isabelle
  imports Complex_Main
begin

section \<open>The door monitor dashboard: component state and handlers\<close>

text \<open>
  A model of \<^verbatim>\<open>src/components/DoorMonitor.tsx\<close>. The component is a React function
  component: seven \<^verbatim>\<open>useState\<close> cells, two effects and a handful of \<^verbatim>\<open>async\<close> handlers,
  each of which suspends once at \<^verbatim>\<open>await fetch(...)\<close>. A handler \<^verbatim>\<open>f\<close> is therefore two
  functions here: \<open>f\<close>, the part that runs when the handler is called (up to the
  \<^verbatim>\<open>await\<close>: it records the request and leaves a continuation in flight), and
  \<open>f_resume\<close>, the part that runs when the request settles. Other handlers may run in
  between, which is what the list of requests in flight is for.

  The body of a response is read with a second \<^verbatim>\<open>await response.json()\<close>; the model
  delivers status line and body in one step.
\<close>

subsection \<open>Values\<close>

text \<open>\<^verbatim>\<open>parseInt\<close> yields an integer or \<^verbatim>\<open>NaN\<close>; \<^verbatim>\<open>useState(30)\<close> starts from an integer.\<close>

datatype number = Num int | NaN

text \<open>
  \<^verbatim>\<open>response.json()\<close> has type \<^verbatim>\<open>any\<close>: whatever the server sent is what the handlers
  receive, so bodies are JavaScript values, not values of the declared interfaces.
\<close>

datatype jsval =
    JUndefined
  | JNull
  | JBool bool
  | JNum real
  | JStr string
  | JArr "jsval list"
  | JObj "(string \<times> jsval) list"

text \<open>The truthiness test of \<^verbatim>\<open>if (data.success)\<close>.\<close>

fun truthy :: "jsval \<Rightarrow> bool" where
  "truthy JUndefined = False"
| "truthy JNull = False"
| "truthy (JBool b) = b"
| "truthy (JNum x) = (x \<noteq> 0)"
| "truthy (JStr s) = (s \<noteq> [])"
| "truthy (JArr vs) = True"
| "truthy (JObj kvs) = True"

text \<open>
  Property access \<^verbatim>\<open>data.k\<close> for the two keys the component reads (\<^verbatim>\<open>success\<close>,
  \<^verbatim>\<open>events\<close>): a \<^verbatim>\<open>TypeError\<close> on \<^verbatim>\<open>null\<close> and \<^verbatim>\<open>undefined\<close> (the result \<open>None\<close>),
  \<^verbatim>\<open>undefined\<close> where the property is missing. An object is the list of its
  properties; where a key is listed twice the first entry is the property.
\<close>

fun get_prop :: "jsval \<Rightarrow> string \<Rightarrow> jsval option" where
  "get_prop JUndefined k = None"
| "get_prop JNull k = None"
| "get_prop (JObj kvs) k = Some (case map_of kvs k of None \<Rightarrow> JUndefined | Some v \<Rightarrow> v)"
| "get_prop v k = Some JUndefined"

text \<open>The shapes the interfaces \<^verbatim>\<open>SystemStatus\<close> and \<^verbatim>\<open>Event\<close> declare, as objects.\<close>

definition SystemStatus ::
  "bool \<Rightarrow> bool \<Rightarrow> bool \<Rightarrow> bool \<Rightarrow> real \<Rightarrow> real \<Rightarrow> bool \<Rightarrow> string \<Rightarrow> jsval" where
  "SystemStatus success door_open timer_active alarm_triggered remaining_time
       timer_duration gpio_available timestamp =
     JObj [(''success'', JBool success), (''door_open'', JBool door_open),
           (''timer_active'', JBool timer_active),
           (''alarm_triggered'', JBool alarm_triggered),
           (''remaining_time'', JNum remaining_time),
           (''timer_duration'', JNum timer_duration),
           (''gpio_available'', JBool gpio_available),
           (''timestamp'', JStr timestamp)]"

definition Event :: "string \<Rightarrow> string \<Rightarrow> string \<Rightarrow> string \<Rightarrow> string \<Rightarrow> jsval" where
  "Event timestamp event_type description username severity =
     JObj [(''timestamp'', JStr timestamp), (''event_type'', JStr event_type),
           (''description'', JStr description), (''username'', JStr username),
           (''severity'', JStr severity)]"

subsection \<open>Component state\<close>

record User =
  username :: string
  password :: string

text \<open>The seven \<^verbatim>\<open>useState\<close> cells, with their initial values in \<open>initial\<close> below.\<close>

record state =
  isLoggedIn :: bool
  user :: User
  status :: jsval
  events :: jsval
  timerDuration :: number
  loading :: bool
  error :: string

subsection \<open>The world around the component\<close>

datatype variant = Default | Destructive

text \<open>A template literal keeps its interpolated number as a fragment.\<close>

datatype fragment = Text string | Interp number

record Toast =
  title :: string
  description :: "fragment list"
  variant :: variant

datatype body =
    NoBody
  | FormData "(string \<times> string) list"
  | JSON_stringify "(string \<times> number) list"

text \<open>Every call passes \<^verbatim>\<open>credentials: 'include'\<close>; headers are not modelled.\<close>

record request =
  http_method :: string
  url :: string
  body :: body

text \<open>
  A fetch either rejects (no response at all) or resolves with a status code and a
  body; \<open>None\<close> is a body that \<^verbatim>\<open>response.json()\<close> cannot parse.
\<close>

datatype outcome = NetworkError | Response nat "jsval option"

definition ok :: "nat \<Rightarrow> bool" where
  "ok code = (200 \<le> code \<and> code \<le> 299)"

text \<open>
  The continuation a handler leaves behind at its \<^verbatim>\<open>await\<close>. \<^verbatim>\<open>updateTimer\<close> reads
  \<^verbatim>\<open>timerDuration\<close> again after the \<^verbatim>\<open>await\<close>, from the same closure: the value is
  captured.
\<close>

datatype pending =
    Await_checkLoginStatus
  | Await_handleLogin
  | Await_handleLogout
  | Await_fetchStatus
  | Await_fetchEvents
  | Await_resetSystem
  | Await_updateTimer number

text \<open>
  \<open>sent\<close> is the log of network calls in the order issued, \<open>inflight\<close> the
  continuations not yet resumed. \<open>statusInterval\<close> and \<open>eventsInterval\<close> are the two
  handles the polling effect holds; \<open>nextTimer\<close> is the next handle
  \<^verbatim>\<open>setInterval\<close> returns and \<open>cleared\<close> the handles given to \<^verbatim>\<open>clearInterval\<close>.
  \<open>effectDeps\<close> is the value of \<^verbatim>\<open>isLoggedIn\<close> the polling effect last ran with (its
  dependency array).
\<close>

record world =
  st :: state
  toasts :: "Toast list"
  console :: "string list"
  sent :: "request list"
  inflight :: "pending list"
  statusInterval :: "nat option"
  eventsInterval :: "nat option"
  nextTimer :: nat
  cleared :: "nat list"
  effectDeps :: bool
  opened :: "string list"

definition API_BASE :: string where
  "API_BASE = ''http://localhost:5000''"

definition initial :: world where
  "initial =
     \<lparr> st = \<lparr> isLoggedIn = False, user = \<lparr> username = [], password = [] \<rparr>,
              status = JNull, events = JArr [], timerDuration = Num 30,
              loading = False, error = [] \<rparr>,
       toasts = [], console = [], sent = [], inflight = [],
       statusInterval = None, eventsInterval = None, nextTimer = 0,
       cleared = [], effectDeps = False, opened = [] \<rparr>"

subsection \<open>State setters and ambient calls\<close>

text \<open>
  A setter writes its cell and nothing else: effects run later, when React has
  re-rendered (\<open>flushEffect\<close> below).
\<close>

definition setIsLoggedIn :: "bool \<Rightarrow> world \<Rightarrow> world" where
  "setIsLoggedIn b w = w\<lparr> st := (st w)\<lparr> isLoggedIn := b \<rparr> \<rparr>"

definition setUser :: "User \<Rightarrow> world \<Rightarrow> world" where
  "setUser u w = w\<lparr> st := (st w)\<lparr> user := u \<rparr> \<rparr>"

definition setStatus :: "jsval \<Rightarrow> world \<Rightarrow> world" where
  "setStatus d w = w\<lparr> st := (st w)\<lparr> status := d \<rparr> \<rparr>"

definition setEvents :: "jsval \<Rightarrow> world \<Rightarrow> world" where
  "setEvents d w = w\<lparr> st := (st w)\<lparr> events := d \<rparr> \<rparr>"

definition setTimerDuration :: "number \<Rightarrow> world \<Rightarrow> world" where
  "setTimerDuration n w = w\<lparr> st := (st w)\<lparr> timerDuration := n \<rparr> \<rparr>"

definition setLoading :: "bool \<Rightarrow> world \<Rightarrow> world" where
  "setLoading b w = w\<lparr> st := (st w)\<lparr> loading := b \<rparr> \<rparr>"

definition setError :: "string \<Rightarrow> world \<Rightarrow> world" where
  "setError s w = w\<lparr> st := (st w)\<lparr> error := s \<rparr> \<rparr>"

definition toast :: "Toast \<Rightarrow> world \<Rightarrow> world" where
  "toast t w = w\<lparr> toasts := toasts w @ [t] \<rparr>"

definition console_log :: "string \<Rightarrow> world \<Rightarrow> world" where
  "console_log s w = w\<lparr> console := console w @ [s] \<rparr>"

definition console_error :: "string \<Rightarrow> world \<Rightarrow> world" where
  "console_error s w = w\<lparr> console := console w @ [s] \<rparr>"

text \<open>\<^verbatim>\<open>fetch\<close> up to the \<^verbatim>\<open>await\<close>: the request goes out, the caller is suspended.\<close>

definition fetch :: "request \<Rightarrow> pending \<Rightarrow> world \<Rightarrow> world" where
  "fetch r k w = w\<lparr> sent := sent w @ [r], inflight := inflight w @ [k] \<rparr>"

subsection \<open>The polling effect\<close>

text \<open>
  \<^verbatim>\<open>useEffect(() => { if (isLoggedIn) { setInterval ...; return () => clearInterval ... } },
  [isLoggedIn])\<close>. After a render React compares \<^verbatim>\<open>isLoggedIn\<close> with the value the
  effect last ran with; when it has changed, the cleanup of the previous run and then
  the effect run again, and otherwise nothing happens. This is a step of its own,
  some time after the setter: until it has run, the old handles are live and the
  interval timers can fire.
\<close>

definition polling_cleanup :: "world \<Rightarrow> world" where
  "polling_cleanup w =
     w\<lparr> cleared := cleared w
            @ (case statusInterval w of None \<Rightarrow> [] | Some i \<Rightarrow> [i])
            @ (case eventsInterval w of None \<Rightarrow> [] | Some i \<Rightarrow> [i]),
        statusInterval := None, eventsInterval := None \<rparr>"

definition polling_effect :: "world \<Rightarrow> world" where
  "polling_effect w =
     (if isLoggedIn (st w)
      then w\<lparr> statusInterval := Some (nextTimer w),
              eventsInterval := Some (Suc (nextTimer w)),
              nextTimer := nextTimer w + 2 \<rparr>
      else w)"

definition flushEffect :: "world \<Rightarrow> world" where
  "flushEffect w =
     (if isLoggedIn (st w) = effectDeps w then w
      else (polling_effect (polling_cleanup w))\<lparr> effectDeps := isLoggedIn (st w) \<rparr>)"

subsection \<open>The two pulls\<close>

definition fetchStatus :: "world \<Rightarrow> world" where
  "fetchStatus w =
     fetch \<lparr> http_method = ''GET'', url = API_BASE @ ''/api/status'', body = NoBody \<rparr>
       Await_fetchStatus w"

definition fetchStatus_resume :: "outcome \<Rightarrow> world \<Rightarrow> world" where
  "fetchStatus_resume out w =
     (case out of
        NetworkError \<Rightarrow> console_error ''Status fetch error:'' w
      | Response code b \<Rightarrow>
          if ok code
          then (case b of
                  None \<Rightarrow> console_error ''Status fetch error:'' w
                | Some data \<Rightarrow> setStatus data w)
          else w)"

definition fetchEvents :: "world \<Rightarrow> world" where
  "fetchEvents w =
     fetch \<lparr> http_method = ''GET'', url = API_BASE @ ''/api/events'', body = NoBody \<rparr>
       Await_fetchEvents w"

definition fetchEvents_resume :: "outcome \<Rightarrow> world \<Rightarrow> world" where
  "fetchEvents_resume out w =
     (case out of
        NetworkError \<Rightarrow> console_error ''Events fetch error:'' w
      | Response code b \<Rightarrow>
          if ok code
          then (case b of
                  None \<Rightarrow> console_error ''Events fetch error:'' w
                | Some data \<Rightarrow>
                    (case get_prop data ''success'' of
                       None \<Rightarrow> console_error ''Events fetch error:'' w
                     | Some s \<Rightarrow>
                         if truthy s
                         then (case get_prop data ''events'' of
                                 None \<Rightarrow> console_error ''Events fetch error:'' w
                               | Some es \<Rightarrow> setEvents es w)
                         else w))
          else w)"

subsection \<open>Session handlers\<close>

definition checkLoginStatus :: "world \<Rightarrow> world" where
  "checkLoginStatus w =
     fetch \<lparr> http_method = ''GET'', url = API_BASE @ ''/api/status'', body = NoBody \<rparr>
       Await_checkLoginStatus w"

definition checkLoginStatus_resume :: "outcome \<Rightarrow> world \<Rightarrow> world" where
  "checkLoginStatus_resume out w =
     (case out of
        NetworkError \<Rightarrow> console_log ''Not logged in'' w
      | Response code b \<Rightarrow>
          if ok code then fetchEvents (fetchStatus (setIsLoggedIn True w)) else w)"

definition handleLogin :: "world \<Rightarrow> world" where
  "handleLogin w =
     (let w1 = setError [] (setLoading True w)
      in fetch \<lparr> http_method = ''POST'', url = API_BASE @ ''/login'',
                 body = FormData [(''username'', username (user (st w1))),
                                  (''password'', password (user (st w1)))] \<rparr>
           Await_handleLogin w1)"

definition handleLogin_resume :: "outcome \<Rightarrow> world \<Rightarrow> world" where
  "handleLogin_resume out w =
     setLoading False
       (case out of
          NetworkError \<Rightarrow>
            setError
              ''Connection failed. Make sure the Flask server is running on port 5000.'' w
        | Response code b \<Rightarrow>
            if ok code
            then fetchEvents (fetchStatus
                   (toast \<lparr> title = ''Login Successful'',
                            description = [Text ''Welcome to the Door Monitoring System''],
                            variant = Default \<rparr>
                      (setIsLoggedIn True w)))
            else setError ''Invalid credentials'' w)"

definition handleLogout :: "world \<Rightarrow> world" where
  "handleLogout w =
     fetch \<lparr> http_method = ''GET'', url = API_BASE @ ''/logout'', body = NoBody \<rparr>
       Await_handleLogout w"

definition handleLogout_resume :: "outcome \<Rightarrow> world \<Rightarrow> world" where
  "handleLogout_resume out w =
     (case out of
        NetworkError \<Rightarrow> console_error ''Logout error:'' w
      | Response code b \<Rightarrow> setEvents (JArr []) (setStatus JNull (setIsLoggedIn False w)))"

subsection \<open>Commands\<close>

definition resetSystem :: "world \<Rightarrow> world" where
  "resetSystem w =
     fetch \<lparr> http_method = ''POST'', url = API_BASE @ ''/api/reset'', body = NoBody \<rparr>
       Await_resetSystem w"

definition resetSystem_resume :: "outcome \<Rightarrow> world \<Rightarrow> world" where
  "resetSystem_resume out w =
     (case out of
        NetworkError \<Rightarrow>
          toast \<lparr> title = ''Reset Failed'',
                  description = [Text ''Failed to reset system''],
                  variant = Destructive \<rparr> w
      | Response code b \<Rightarrow>
          if ok code
          then fetchEvents (fetchStatus
                 (toast \<lparr> title = ''System Reset'',
                          description = [Text ''System has been reset successfully''],
                          variant = Default \<rparr> w))
          else w)"

definition updateTimer :: "world \<Rightarrow> world" where
  "updateTimer w =
     fetch \<lparr> http_method = ''POST'', url = API_BASE @ ''/api/update_timer'',
             body = JSON_stringify [(''duration'', timerDuration (st w))] \<rparr>
       (Await_updateTimer (timerDuration (st w))) w"

definition updateTimer_resume :: "number \<Rightarrow> outcome \<Rightarrow> world \<Rightarrow> world" where
  "updateTimer_resume timerDuration' out w =
     (case out of
        NetworkError \<Rightarrow>
          toast \<lparr> title = ''Update Failed'',
                  description = [Text ''Failed to update timer''],
                  variant = Destructive \<rparr> w
      | Response code b \<Rightarrow>
          if ok code
          then fetchEvents (fetchStatus
                 (toast \<lparr> title = ''Timer Updated'',
                          description = [Text ''Timer duration set to '',
                                         Interp timerDuration', Text '' seconds''],
                          variant = Default \<rparr> w))
          else w)"

definition downloadReport :: "world \<Rightarrow> world" where
  "downloadReport w = w\<lparr> opened := opened w @ [API_BASE @ ''/api/download_report''] \<rparr>"

subsection \<open>What can happen to a mounted component\<close>

text \<open>
  Mounting runs both effects once: the first calls \<^verbatim>\<open>checkLoginStatus\<close>, the second
  finds \<^verbatim>\<open>isLoggedIn\<close> false and schedules nothing.
\<close>

definition mounted :: world where
  "mounted = polling_effect (checkLoginStatus initial)"

text \<open>
  The operator's actions, the two interval timers firing, a request in flight
  settling (\<open>Settle i out\<close>: the \<open>i\<close>-th continuation in flight resumes with \<open>out\<close>;
  responses arrive in any order), and React flushing the polling effect
  (\<open>FlushEffects\<close>). \<open>ChangeTimer n\<close> carries \<^verbatim>\<open>parseInt(e.target.value)\<close>.
\<close>

datatype event =
    ChangeUsername string
  | ChangePassword string
  | SubmitLogin
  | ClickLogout
  | ClickReset
  | ChangeTimer number
  | ClickUpdate
  | ClickDownload
  | StatusTick
  | EventsTick
  | Settle nat outcome
  | FlushEffects

text \<open>
  What the rendered markup lets through: the login form exists only while
  \<^verbatim>\<open>!isLoggedIn\<close>, its submit button is \<^verbatim>\<open>disabled={loading}\<close> and both inputs are
  \<^verbatim>\<open>required\<close>; the dashboard (logout, reset, settings, reports) exists only while
  \<^verbatim>\<open>isLoggedIn\<close>. The timer input's \<^verbatim>\<open>min\<close> and \<^verbatim>\<open>max\<close> attributes do not stop
  \<^verbatim>\<open>onChange\<close> from firing on a value outside them, and the input is in no form.
\<close>

fun enabled :: "event \<Rightarrow> world \<Rightarrow> bool" where
  "enabled (ChangeUsername s) w = (\<not> isLoggedIn (st w))"
| "enabled (ChangePassword s) w = (\<not> isLoggedIn (st w))"
| "enabled SubmitLogin w =
     (\<not> isLoggedIn (st w) \<and> \<not> loading (st w)
      \<and> username (user (st w)) \<noteq> [] \<and> password (user (st w)) \<noteq> [])"
| "enabled ClickLogout w = isLoggedIn (st w)"
| "enabled ClickReset w = isLoggedIn (st w)"
| "enabled (ChangeTimer n) w = isLoggedIn (st w)"
| "enabled ClickUpdate w = isLoggedIn (st w)"
| "enabled ClickDownload w = isLoggedIn (st w)"
| "enabled StatusTick w = (statusInterval w \<noteq> None)"
| "enabled EventsTick w = (eventsInterval w \<noteq> None)"
| "enabled (Settle i out) w = (i < length (inflight w))"
| "enabled FlushEffects w = True"

fun resume :: "pending \<Rightarrow> outcome \<Rightarrow> world \<Rightarrow> world" where
  "resume Await_checkLoginStatus out w = checkLoginStatus_resume out w"
| "resume Await_handleLogin out w = handleLogin_resume out w"
| "resume Await_handleLogout out w = handleLogout_resume out w"
| "resume Await_fetchStatus out w = fetchStatus_resume out w"
| "resume Await_fetchEvents out w = fetchEvents_resume out w"
| "resume Await_resetSystem out w = resetSystem_resume out w"
| "resume (Await_updateTimer n) out w = updateTimer_resume n out w"

fun fire :: "event \<Rightarrow> world \<Rightarrow> world" where
  "fire (ChangeUsername s) w = setUser ((user (st w))\<lparr> username := s \<rparr>) w"
| "fire (ChangePassword s) w = setUser ((user (st w))\<lparr> password := s \<rparr>) w"
| "fire SubmitLogin w = handleLogin w"
| "fire ClickLogout w = handleLogout w"
| "fire ClickReset w = resetSystem w"
| "fire (ChangeTimer n) w = setTimerDuration n w"
| "fire ClickUpdate w = updateTimer w"
| "fire ClickDownload w = downloadReport w"
| "fire StatusTick w = fetchStatus w"
| "fire EventsTick w = fetchEvents w"
| "fire (Settle i out) w =
     (case drop i (inflight w) of
        [] \<Rightarrow> w
      | k # ks \<Rightarrow> resume k out (w\<lparr> inflight := take i (inflight w) @ ks \<rparr>))"
| "fire FlushEffects w = flushEffect w"

definition step :: "event \<Rightarrow> world \<Rightarrow> world option" where
  "step e w = (if enabled e w then Some (fire e w) else None)"

fun run :: "event list \<Rightarrow> world \<Rightarrow> world option" where
  "run [] w = Some w"
| "run (e # es) w = (case step e w of None \<Rightarrow> None | Some w' \<Rightarrow> run es w')"

subsection \<open>Example runs\<close>

text \<open>
  Concrete bodies and runs used to exercise the theorems below: an operator who types
  \<^verbatim>\<open>admin\<close> / \<^verbatim>\<open>admin123\<close> and submits while the mount-time probe is still in flight;
  the probe then fails, the login succeeds, React flushes the polling effect and the
  first status pull comes back.
\<close>

definition example_status :: jsval where
  "example_status = SystemStatus True False False False 0 30 True ''2024-01-01T00:00:00''"

definition example_events :: jsval where
  "example_events =
     JArr [Event ''2024-01-01T00:00:00'' ''LOGIN'' ''User logged in'' ''admin'' ''INFO'']"

definition login_trace :: "event list" where
  "login_trace =
     [ChangeUsername ''admin'', ChangePassword ''admin123'', SubmitLogin,
      Settle 0 NetworkError, Settle 0 (Response 200 None), FlushEffects,
      Settle 0 (Response 200 (Some example_status))]"

definition example_logging_in :: world where
  "example_logging_in =
     fire (Settle 0 NetworkError)
       (fire SubmitLogin
         (fire (ChangePassword ''admin123'') (fire (ChangeUsername ''admin'') mounted)))"

text \<open>The login has been answered; the polling effect has not run yet.\<close>

definition example_unflushed_login :: world where
  "example_unflushed_login = fire (Settle 0 (Response 200 None)) example_logging_in"

definition example_logged_in :: world where
  "example_logged_in =
     fire (Settle 0 (Response 200 (Some example_status)))
       (fire FlushEffects example_unflushed_login)"

text \<open>The logout has been answered; the effect's cleanup has not run yet.\<close>

definition example_unflushed_logout :: world where
  "example_unflushed_logout =
     fire (Settle 1 (Response 200 None)) (fire ClickLogout example_logged_in)"

text \<open>
  Reset clicked, then logout clicked, answered and flushed: the reset is still in
  flight (second in the list) with the session inactive and the handles cleared.
\<close>

definition example_reset_pending :: world where
  "example_reset_pending =
     fire FlushEffects
       (fire (Settle 2 (Response 200 None))
         (fire ClickLogout (fire ClickReset example_logged_in)))"

definition example_dashboard :: world where
  "example_dashboard =
     fire (Settle 0 (Response 200
             (Some (JObj [(''success'', JBool True), (''events'', example_events)]))))
       example_logged_in"

subsection \<open>Invariants and event classes\<close>


text \<open>While \<^verbatim>\<open>loading\<close> is set, a login request is in flight.\<close>

definition loading_inv :: "world \<Rightarrow> bool" where
  "loading_inv w = (loading (st w) \<longrightarrow> Await_handleLogin \<in> set (inflight w))"





text \<open>The two \<^verbatim>\<open>onChange\<close> handlers of the login form.\<close>

fun is_credential_input :: "event \<Rightarrow> bool" where
  "is_credential_input (ChangeUsername s) = True"
| "is_credential_input (ChangePassword s) = True"
| "is_credential_input e = False"

section \<open>Properties\<close>

subsection \<open>Unfolding sets and example runs\<close>

lemmas setter_defs =
  setUser_def setStatus_def setEvents_def setTimerDuration_def setLoading_def setError_def
  toast_def console_log_def console_error_def fetch_def

lemmas effect_defs =
  polling_cleanup_def polling_effect_def setIsLoggedIn_def flushEffect_def

lemmas handler_defs =
  fetchStatus_def fetchStatus_resume_def fetchEvents_def fetchEvents_resume_def
  checkLoginStatus_def checkLoginStatus_resume_def handleLogin_def handleLogin_resume_def
  handleLogout_def handleLogout_resume_def resetSystem_def resetSystem_resume_def
  updateTimer_def updateTimer_resume_def downloadReport_def

lemmas example_defs =
  step_def mounted_def initial_def API_BASE_def ok_def Let_def example_status_def
  example_events_def SystemStatus_def Event_def login_trace_def example_logging_in_def
  example_logged_in_def example_dashboard_def example_unflushed_login_def
  example_unflushed_logout_def example_reset_pending_def

lemmas eval_defs = example_defs handler_defs effect_defs setter_defs

lemma login_trace_run: "run login_trace mounted = Some example_logged_in"
  by (simp add: eval_defs)

lemma example_logging_in_run:
  "run (take 4 login_trace) mounted = Some example_logging_in"
  by (simp add: eval_defs)




subsection \<open>The polling invariant\<close>








subsection \<open>Who pulls while the session is inactive\<close>




subsection \<open>The loading flag\<close>

lemma loading_inv_mounted: "loading_inv mounted"
  by (simp add: loading_inv_def mounted_def initial_def checkLoginStatus_def
      setter_defs effect_defs)

lemma handleLogin_resume_not_loading: "\<not> loading (st (handleLogin_resume out w))"
  by (simp add: handleLogin_resume_def setLoading_def)

lemma resume_other_loading:
  "k \<noteq> Await_handleLogin \<Longrightarrow> loading (st (resume k out w)) = loading (st w)"
  by (cases k; cases out)
    (auto simp: handler_defs setter_defs effect_defs split: option.splits)

lemma resume_inflight_mono: "x \<in> set (inflight w) \<Longrightarrow> x \<in> set (inflight (resume k out w))"
  by (cases k; cases out)
    (auto simp: handler_defs setter_defs effect_defs split: option.splits)

lemma unqueue_keeps_others:
  assumes "drop i xs = k # ks" and "x \<in> set xs" and "x \<noteq> k"
  shows "x \<in> set (take i xs @ ks)"
proof -
  have "set xs = set (take i xs) \<union> set (drop i xs)"
    by (simp flip: set_append)
  with assms show ?thesis by simp
qed

lemma loading_inv_fire: "loading_inv w \<Longrightarrow> loading_inv (fire e w)"
proof (cases e)
  case (Settle i out)
  assume inv: "loading_inv w"
  show ?thesis
  proof (cases "drop i (inflight w)")
    case Nil
    with Settle inv show ?thesis by simp
  next
    case (Cons k ks)
    let ?w = "w\<lparr> inflight := take i (inflight w) @ ks \<rparr>"
    have f: "fire e w = resume k out ?w" using Settle Cons by simp
    show ?thesis
    proof (cases "k = Await_handleLogin")
      case True
      then show ?thesis unfolding f loading_inv_def
        by (simp add: handleLogin_resume_not_loading)
    next
      case False
      show ?thesis unfolding f loading_inv_def
      proof
        assume "loading (st (resume k out ?w))"
        then have "loading (st w)" using False by (simp add: resume_other_loading)
        then have "Await_handleLogin \<in> set (inflight w)" using inv by (simp add: loading_inv_def)
        then have "Await_handleLogin \<in> set (inflight ?w)"
          by (simp add: unqueue_keeps_others[OF Cons _ False[symmetric]] del: set_append)
        then show "Await_handleLogin \<in> set (inflight (resume k out ?w))"
          by (rule resume_inflight_mono)
      qed
    qed
  qed
qed (auto simp: handler_defs setter_defs effect_defs loading_inv_def Let_def)

lemma loading_inv_run: "loading_inv w \<Longrightarrow> run es w = Some w' \<Longrightarrow> loading_inv w'"
proof (induction es arbitrary: w)
  case Nil
  then show ?case by simp
next
  case (Cons e es)
  from Cons.prems(2) have r: "run es (fire e w) = Some w'"
    by (auto simp: step_def split: if_splits)
  from Cons.prems(1) have "loading_inv (fire e w)" by (rule loading_inv_fire)
  with r show ?case by (rule Cons.IH[rotated])
qed

subsection \<open>The credentials\<close>

lemma resume_user: "user (st (resume k out w)) = user (st w)"
  by (cases k; cases out)
    (auto simp: handler_defs setter_defs effect_defs split: option.splits)

lemma fire_user: "\<not> is_credential_input e \<Longrightarrow> user (st (fire e w)) = user (st w)"
proof (cases e)
  case (Settle i out)
  then show ?thesis
    by (cases "drop i (inflight w)") (simp_all add: resume_user)
qed (auto simp: handler_defs setter_defs effect_defs Let_def)

subsection \<open>Timer command\<close>

text \<open>
  C1: \<^verbatim>\<open>updateTimer\<close> issues no network call when the duration is below 1 or above
  86400, the range the timer input declares (\<^verbatim>\<open>min="1" max="86400"\<close>). Evaluated on
  the runs where the operator, logged in, types 0 (or 86401) into the timer input and
  clicks Update: the run goes through, and the last request sent is the POST to
  \<^verbatim>\<open>/api/update_timer\<close> carrying that value.
\<close>

theorem updateTimer_sends_out_of_range:
  "map_option (last \<circ> sent)
       (run (login_trace @ [ChangeTimer (Num 0), ClickUpdate]) mounted)
     = Some \<lparr> http_method = ''POST'', url = ''http://localhost:5000/api/update_timer'',
              body = JSON_stringify [(''duration'', Num 0)] \<rparr>
   \<and> map_option (last \<circ> sent)
       (run (login_trace @ [ChangeTimer (Num 86401), ClickUpdate]) mounted)
     = Some \<lparr> http_method = ''POST'', url = ''http://localhost:5000/api/update_timer'',
              body = JSON_stringify [(''duration'', Num 86401)] \<rparr>"
  by (simp add: eval_defs)

subsection \<open>Logout\<close>

text \<open>
  C2 (as stated): whatever the outcome of the logout call, afterwards the session is
  inactive, the identity cleared, the status absent and the event list empty. Two runs
  show otherwise. When the logout request fails at the network level the operator is
  still logged in and the status is still held; when it is answered with 200 the
  username and password typed at login are still in the state.
\<close>

theorem logout_not_unconditional:
  "map_option (isLoggedIn \<circ> st)
       (run (login_trace @ [ClickLogout, Settle 1 NetworkError]) mounted) = Some True
   \<and> map_option (status \<circ> st)
       (run (login_trace @ [ClickLogout, Settle 1 NetworkError]) mounted)
     = Some example_status
   \<and> map_option (user \<circ> st)
       (run (login_trace @ [ClickLogout, Settle 1 (Response 200 None)]) mounted)
     = Some \<lparr> username = ''admin'', password = ''admin123'' \<rparr>"
  by (simp add: eval_defs)

text \<open>
  C2 (amended): when the logout request is answered, with any status code, the session
  becomes inactive, the status is absent (\<^verbatim>\<open>null\<close>) and the event list is empty; the username
  and password are left as they were.
\<close>

theorem logout_response_clears:
  "\<not> isLoggedIn (st (handleLogout_resume (Response code b) w))
   \<and> status (st (handleLogout_resume (Response code b) w)) = JNull
   \<and> events (st (handleLogout_resume (Response code b) w)) = JArr []
   \<and> user (st (handleLogout_resume (Response code b) w)) = user (st w)"
  by (simp add: handleLogout_resume_def setter_defs effect_defs)

subsection \<open>Late status responses\<close>

text \<open>
  C3 (as stated): a status response that arrives after logout is not committed. In this
  run a status pull is issued by the interval timer, the operator logs out and the
  logout is answered (status absent, session inactive), and then the pull is answered:
  the body becomes the held status although the session is inactive.
\<close>

theorem late_status_response_committed:
  "map_option (status \<circ> st)
       (run (login_trace @ [StatusTick, ClickLogout, Settle 2 (Response 200 None)]) mounted)
     = Some JNull
   \<and> map_option (isLoggedIn \<circ> st)
       (run (login_trace @ [StatusTick, ClickLogout, Settle 2 (Response 200 None),
                            Settle 1 (Response 200 (Some example_status))]) mounted)
     = Some False
   \<and> map_option (status \<circ> st)
       (run (login_trace @ [StatusTick, ClickLogout, Settle 2 (Response 200 None),
                            Settle 1 (Response 200 (Some example_status))]) mounted)
     = Some example_status"
  by (simp add: eval_defs)

text \<open>
  C3 (amended): \<^verbatim>\<open>fetchStatus\<close> does not look at the session. A 2xx status response
  with a JSON body is committed whether or not the session is active, and the session
  flag is left as it is.
\<close>

theorem fetchStatus_commits_whatever_session:
  assumes "ok code"
  shows "status (st (fetchStatus_resume (Response code (Some data)) w)) = data
       \<and> isLoggedIn (st (fetchStatus_resume (Response code (Some data)) w))
           = isLoggedIn (st w)"
  using assms by (simp add: fetchStatus_resume_def setStatus_def)

theorem fetchStatus_commits_whatever_session_witness:
  "ok 200 \<and> \<not> isLoggedIn (st (handleLogout_resume (Response 200 None) example_logged_in))
   \<and> status (st (fetchStatus_resume (Response 200 (Some example_status))
                   (handleLogout_resume (Response 200 None) example_logged_in)))
       = example_status
   \<and> \<not> isLoggedIn (st (fetchStatus_resume (Response 200 (Some example_status))
                   (handleLogout_resume (Response 200 None) example_logged_in)))"
proof -
  have c: "ok 200" by (simp add: ok_def)
  have off: "\<not> isLoggedIn (st (handleLogout_resume (Response 200 None) example_logged_in))"
    by (simp add: handleLogout_resume_def setter_defs effect_defs)
  from fetchStatus_commits_whatever_session[OF c, of example_status
      "handleLogout_resume (Response 200 None) example_logged_in"] c off
  show ?thesis by simp
qed

subsection \<open>Failed commands\<close>

text \<open>
  C4: a failed reset or timer update emits a failure notification and changes no local
  state. Evaluated at a non-2xx answer (500): neither handler emits any toast; the
  world after the answer is the world before it.
\<close>

theorem command_rejected_is_silent:
  "resetSystem_resume (Response 500 b) w = w
   \<and> updateTimer_resume n (Response 500 b) w = w
   \<and> toasts (resetSystem_resume NetworkError w)
       = toasts w @ [\<lparr> title = ''Reset Failed'',
                        description = [Text ''Failed to reset system''],
                        variant = Destructive \<rparr>]
   \<and> toasts (updateTimer_resume n NetworkError w)
       = toasts w @ [\<lparr> title = ''Update Failed'',
                        description = [Text ''Failed to update timer''],
                        variant = Destructive \<rparr>]
   \<and> st (resetSystem_resume NetworkError w) = st w
   \<and> st (updateTimer_resume n NetworkError w) = st w"
  by (simp add: resetSystem_resume_def updateTimer_resume_def ok_def toast_def)

subsection \<open>Failed pulls\<close>

text \<open>
  C5: a failed pull of either feed (no response, a non-2xx response, or for the events
  feed a 2xx body with \<^verbatim>\<open>success: false\<close>) leaves the held status and the held event
  list as they were (the whole component state in fact); when the held status or event
  list does change, the pull was a 2xx response with a JSON body (for events: one whose
  \<^verbatim>\<open>success\<close> is truthy). A status pull never writes the events and conversely.
\<close>

theorem failed_pull_keeps_state:
  "st (fetchStatus_resume NetworkError w) = st w
   \<and> (\<not> ok code \<longrightarrow> st (fetchStatus_resume (Response code b) w) = st w)
   \<and> st (fetchEvents_resume NetworkError w) = st w
   \<and> (\<not> ok code \<longrightarrow> st (fetchEvents_resume (Response code b) w) = st w)
   \<and> (get_prop data ''success'' = Some (JBool False) \<longrightarrow>
        st (fetchEvents_resume (Response code' (Some data)) w) = st w)
   \<and> (status (st (fetchStatus_resume out w)) \<noteq> status (st w) \<longrightarrow>
        (\<exists>c d. out = Response c (Some d) \<and> ok c))
   \<and> (events (st (fetchEvents_resume out w)) \<noteq> events (st w) \<longrightarrow>
        (\<exists>c d s. out = Response c (Some d) \<and> ok c
             \<and> get_prop d ''success'' = Some s \<and> truthy s))
   \<and> events (st (fetchStatus_resume out w)) = events (st w)
   \<and> status (st (fetchEvents_resume out w)) = status (st w)"
  by (simp add: fetchStatus_resume_def fetchEvents_resume_def setter_defs
      split: outcome.splits option.splits)

theorem failed_pull_keeps_state_witness:
  "\<not> ok 503
   \<and> get_prop (JObj [(''success'', JBool False), (''events'', JArr [])]) ''success''
       = Some (JBool False)
   \<and> status (st (fetchStatus_resume NetworkError example_dashboard)) = example_status
   \<and> status (st (fetchStatus_resume (Response 503 None) example_dashboard)) = example_status
   \<and> events (st (fetchEvents_resume NetworkError example_dashboard)) = example_events
   \<and> events (st (fetchEvents_resume (Response 503 None) example_dashboard)) = example_events
   \<and> events (st (fetchEvents_resume
        (Response 200 (Some (JObj [(''success'', JBool False), (''events'', JArr [])])))
        example_dashboard)) = example_events
   \<and> status (st (fetchStatus_resume
        (Response 200 (Some (JObj [(''success'', JBool True), (''events'', JArr [])])))
        example_dashboard)) \<noteq> status (st example_dashboard)
   \<and> events (st (fetchEvents_resume
        (Response 200 (Some (JObj [(''success'', JBool True), (''events'', JArr [])])))
        example_dashboard)) \<noteq> events (st example_dashboard)"
proof -
  have s: "status (st example_dashboard) = example_status"
    and e: "events (st example_dashboard) = example_events"
    by (simp_all add: eval_defs)
  have c: "\<not> ok 503" by (simp add: ok_def)
  have g: "get_prop (JObj [(''success'', JBool False), (''events'', JArr [])]) ''success''
      = Some (JBool False)" by simp
  have ch1: "status (st (fetchStatus_resume
        (Response 200 (Some (JObj [(''success'', JBool True), (''events'', JArr [])])))
        example_dashboard)) \<noteq> status (st example_dashboard)"
    unfolding s by (simp add: fetchStatus_resume_def setter_defs ok_def example_status_def
        SystemStatus_def)
  have ch2: "events (st (fetchEvents_resume
        (Response 200 (Some (JObj [(''success'', JBool True), (''events'', JArr [])])))
        example_dashboard)) \<noteq> events (st example_dashboard)"
    unfolding e by (simp add: fetchEvents_resume_def setter_defs ok_def example_events_def)
  from failed_pull_keeps_state[where w = example_dashboard and code = 503 and b = None
      and data = "JObj [(''success'', JBool False), (''events'', JArr [])]"
      and code' = 200
      and out = "Response 200 (Some (JObj [(''success'', JBool True), (''events'', JArr [])]))"]
    c g s e ch1 ch2
  show ?thesis by simp
qed

subsection \<open>Failed logins\<close>

text \<open>
  C6: a failed login leaves the session flag as it was (so an inactive session stays
  inactive), starts no feed (no interval handle is created, and the only request of the
  whole attempt is the login POST itself), emits no toast, and sets the inline error
  held in the component state: \<^verbatim>\<open>Invalid credentials\<close> for a non-2xx answer, whatever the username and password
  were, and a message that the connection failed when there was no answer at all. The
  two messages differ and neither is empty, so the alert is rendered.
\<close>

theorem failed_login_error:
  assumes "out = NetworkError \<or> (\<exists>code b. out = Response code b \<and> \<not> ok code)"
  shows "isLoggedIn (st (handleLogin_resume out w)) = isLoggedIn (st w)
       \<and> statusInterval (handleLogin_resume out w) = statusInterval w
       \<and> eventsInterval (handleLogin_resume out w) = eventsInterval w
       \<and> sent (handleLogin_resume out w) = sent w
       \<and> inflight (handleLogin_resume out w) = inflight w
       \<and> toasts (handleLogin_resume out w) = toasts w
       \<and> error (st (handleLogin_resume out w))
           = (if out = NetworkError
              then ''Connection failed. Make sure the Flask server is running on port 5000.''
              else ''Invalid credentials'')
       \<and> error (st (handleLogin_resume out w)) \<noteq> []
       \<and> ''Connection failed. Make sure the Flask server is running on port 5000.''
           \<noteq> ''Invalid credentials''
       \<and> isLoggedIn (st (handleLogin w)) = isLoggedIn (st w)
       \<and> statusInterval (handleLogin w) = statusInterval w
       \<and> eventsInterval (handleLogin w) = eventsInterval w
       \<and> sent (handleLogin w)
           = sent w @ [\<lparr> http_method = ''POST'', url = API_BASE @ ''/login'',
                         body = FormData [(''username'', username (user (st w))),
                                          (''password'', password (user (st w)))] \<rparr>]"
  using assms
  by (auto simp: handleLogin_resume_def handleLogin_def setLoading_def setError_def
      fetch_def Let_def)

theorem failed_login_error_witness:
  "\<not> ok 401
   \<and> \<not> isLoggedIn (st example_logging_in)
   \<and> \<not> isLoggedIn (st (handleLogin_resume (Response 401 None) example_logging_in))
   \<and> error (st (handleLogin_resume (Response 401 None) example_logging_in))
       = ''Invalid credentials''
   \<and> statusInterval (handleLogin_resume (Response 401 None) example_logging_in) = None
   \<and> eventsInterval (handleLogin_resume (Response 401 None) example_logging_in) = None
   \<and> \<not> isLoggedIn (st (handleLogin_resume NetworkError example_logging_in))
   \<and> error (st (handleLogin_resume NetworkError example_logging_in))
       = ''Connection failed. Make sure the Flask server is running on port 5000.''"
proof -
  have c: "\<not> ok 401" by (simp add: ok_def)
  have off: "\<not> isLoggedIn (st example_logging_in)"
    and i1: "statusInterval example_logging_in = None"
    and i2: "eventsInterval example_logging_in = None"
    by (simp_all add: eval_defs)
  have h1: "Response 401 None = NetworkError
      \<or> (\<exists>code b. Response 401 None = Response code b \<and> \<not> ok code)"
    using c by simp
  have h2: "NetworkError = NetworkError
      \<or> (\<exists>code b. NetworkError = Response code b \<and> \<not> ok code)"
    by simp
  from failed_login_error[OF h1, of example_logging_in]
    failed_login_error[OF h2, of example_logging_in] c off i1 i2
  show ?thesis by simp
qed

subsection \<open>Polling and the session\<close>




subsection \<open>Status bodies and event bodies\<close>

text \<open>
  C8: a 2xx status response with a JSON body replaces the held status by that body,
  whatever the body is: \<^verbatim>\<open>fetchStatus\<close> does not read \<^verbatim>\<open>success\<close>. A 2xx events
  response whose body has a \<^verbatim>\<open>success\<close> property replaces the held events by the body's
  \<^verbatim>\<open>events\<close> when \<^verbatim>\<open>success\<close> is truthy and leaves them alone when it is not.
\<close>

theorem status_commits_any_body:
  assumes "ok code"
  shows "status (st (fetchStatus_resume (Response code (Some data)) w)) = data
       \<and> (get_prop data ''success'' = Some s \<longrightarrow>
            (\<exists>es. get_prop data ''events'' = Some es
               \<and> events (st (fetchEvents_resume (Response code (Some data)) w))
                   = (if truthy s then es else events (st w))))"
  using assms
  by (cases data) (simp_all add: fetchStatus_resume_def fetchEvents_resume_def setter_defs)

theorem status_commits_any_body_witness:
  "ok 200
   \<and> get_prop (JObj [(''success'', JBool False), (''events'', JArr [])]) ''success''
       = Some (JBool False)
   \<and> status (st (fetchStatus_resume
        (Response 200 (Some (JObj [(''success'', JBool False), (''events'', JArr [])])))
        example_dashboard))
       = JObj [(''success'', JBool False), (''events'', JArr [])]
   \<and> events (st (fetchEvents_resume
        (Response 200 (Some (JObj [(''success'', JBool False), (''events'', JArr [])])))
        example_dashboard))
       = example_events
   \<and> events (st (fetchEvents_resume
        (Response 200 (Some (JObj [(''success'', JBool True), (''events'', JArr [])])))
        example_dashboard))
       = JArr []"
proof -
  have c: "ok 200" by (simp add: ok_def)
  have e: "events (st example_dashboard) = example_events"
    by (simp add: eval_defs)
  from status_commits_any_body[OF c, of
      "JObj [(''success'', JBool False), (''events'', JArr [])]" example_dashboard "JBool False"]
    status_commits_any_body[OF c, of
      "JObj [(''success'', JBool True), (''events'', JArr [])]" example_dashboard "JBool True"]
    c e
  show ?thesis by simp
qed

subsection \<open>Credentials stay in the state\<close>

text \<open>
  C9: the username and password held in the component state are written only by the two
  input handlers of the login form. Every other event (submit, logout, reset, timer,
  download, ticks, and any request settling with any outcome) leaves them as they are;
  in particular they are still held after a successful login and after logout.
\<close>

theorem credentials_only_written_by_inputs:
  "(\<not> is_credential_input e \<longrightarrow> user (st (fire e w)) = user (st w))
   \<and> user (st (fire (ChangeUsername s) w)) = (user (st w))\<lparr> username := s \<rparr>
   \<and> user (st (fire (ChangePassword s) w)) = (user (st w))\<lparr> password := s \<rparr>
   \<and> user (st (handleLogin w)) = user (st w)
   \<and> user (st (handleLogin_resume out w)) = user (st w)
   \<and> user (st (handleLogout w)) = user (st w)
   \<and> user (st (handleLogout_resume out w)) = user (st w)"
  using fire_user[of e w] resume_user[of Await_handleLogin out w]
    resume_user[of Await_handleLogout out w]
  by (simp add: handleLogin_def handleLogout_def setter_defs Let_def)

theorem credentials_only_written_by_inputs_witness:
  "\<not> is_credential_input (Settle 0 (Response 200 None))
   \<and> isLoggedIn (st (fire (Settle 0 (Response 200 None)) example_logging_in))
   \<and> user (st (fire (Settle 0 (Response 200 None)) example_logging_in))
       = \<lparr> username = ''admin'', password = ''admin123'' \<rparr>
   \<and> \<not> isLoggedIn (st (handleLogout_resume (Response 200 None) example_logged_in))
   \<and> user (st (handleLogout_resume (Response 200 None) example_logged_in))
       = \<lparr> username = ''admin'', password = ''admin123'' \<rparr>"
proof -
  have u: "user (st example_logging_in) = \<lparr> username = ''admin'', password = ''admin123'' \<rparr>"
    and u': "user (st example_logged_in) = \<lparr> username = ''admin'', password = ''admin123'' \<rparr>"
    and on: "isLoggedIn (st (fire (Settle 0 (Response 200 None)) example_logging_in))"
    and off: "\<not> isLoggedIn (st (handleLogout_resume (Response 200 None) example_logged_in))"
    by (simp_all add: eval_defs)
  from credentials_only_written_by_inputs[of "Settle 0 (Response 200 None)"
      example_logging_in _ "Response 200 None"]
    credentials_only_written_by_inputs[of "Settle 0 (Response 200 None)"
      example_logged_in _ "Response 200 None"] u u' on off
  show ?thesis by simp
qed

subsection \<open>The loading flag and the login request\<close>

text \<open>
  C10: \<^verbatim>\<open>handleLogin\<close> sets \<^verbatim>\<open>loading\<close> on entry and leaves its request in flight; when
  the request settles, with whatever outcome, \<^verbatim>\<open>loading\<close> is false; and in every state a
  mounted component can reach, \<^verbatim>\<open>loading\<close> is true only if a login request is in flight.
\<close>

theorem loading_only_while_login_in_flight:
  "loading (st (handleLogin w))
   \<and> Await_handleLogin \<in> set (inflight (handleLogin w))
   \<and> \<not> loading (st (handleLogin_resume out w))
   \<and> (run es mounted = Some w' \<and> loading (st w') \<longrightarrow>
        Await_handleLogin \<in> set (inflight w'))"
  using loading_inv_run[OF loading_inv_mounted, of es w']
  by (simp add: handleLogin_def setter_defs Let_def handleLogin_resume_not_loading
      loading_inv_def)

theorem loading_only_while_login_in_flight_witness:
  "run (take 4 login_trace) mounted = Some example_logging_in
   \<and> loading (st example_logging_in)
   \<and> Await_handleLogin \<in> set (inflight example_logging_in)
   \<and> \<not> loading (st (handleLogin_resume (Response 200 None) example_logging_in))
   \<and> \<not> loading (st (handleLogin_resume (Response 401 None) example_logging_in))
   \<and> \<not> loading (st (handleLogin_resume NetworkError example_logging_in))"
proof -
  have l: "loading (st example_logging_in)"
    by (simp add: eval_defs)
  from loading_only_while_login_in_flight[of _ "Response 200 None" "take 4 login_trace"
      example_logging_in]
    loading_only_while_login_in_flight[of _ "Response 401 None" "[]" mounted]
    loading_only_while_login_in_flight[of _ NetworkError "[]" mounted]
    example_logging_in_run l
  show ?thesis by simp
qed

end
